theory Spec2Isabelle
  imports Complex_Main
begin

section \<open>Data model (src/src/types.ts)\<close>

text \<open>
  JavaScript numbers are modelled as \<^typ>\<open>real\<close>: the comparisons and the quotients of
  the source are read as exact arithmetic. A value that is \<open>undefined\<close> or \<open>null\<close> in the
  source is \<open>None\<close>; an optional boolean prop that is absent is falsy, hence \<open>False\<close>.
  A theorem that states the value of a quotient carries the hypothesis that the divisor
  is not zero (JavaScript yields an infinity or NaN there, HOL yields 0); the other
  theorems do not use what a quotient is equal to.
\<close>

datatype ResponsiveType = Sm | Md | Lg | Xl | XXl

datatype FitAxis = FitWidth | FitHeight

record Bound =
  bmin :: "real option"
  bmax :: "real option"

record Breakpoint =
  bwidth :: "Bound option"
  bheight :: "Bound option"

record FlexyFitProps =
  width :: "real option"
  height :: "real option"
  fitTo :: "FitAxis option"
  overflow :: bool
  px :: bool
  flex :: bool
  horizontalOrigin :: "string option"
  verticalOrigin :: "string option"
  responsive :: "ResponsiveType list option"
  breakpoint :: "Breakpoint option"

section \<open>Visibility gate (src/src/FlexyFit.tsx)\<close>

text \<open>
  The global \<open>window\<close> is a \<open>Viewport option\<close>: \<open>None\<close> stands for
  \<open>typeof window === "undefined"\<close>.
\<close>

record Viewport =
  innerWidth :: real
  innerHeight :: real

text \<open>The two \<open>useState\<close> cells of the component, both initially \<open>false\<close>.\<close>

record GateState =
  responsiveView :: bool
  breakpointView :: bool

definition gateInit :: GateState where
  "gateInit = \<lparr>responsiveView = False, breakpointView = False\<rparr>"

definition setResponsiveView :: "bool \<Rightarrow> GateState \<Rightarrow> GateState" where
  "setResponsiveView b g = g\<lparr>responsiveView := b\<rparr>"

definition setBreakpointView :: "bool \<Rightarrow> GateState \<Rightarrow> GateState" where
  "setBreakpointView b g = g\<lparr>breakpointView := b\<rparr>"

text \<open>\<open>checkResponsive\<close>, lines 15 to 62: a chain of early returns.\<close>

definition checkResponsive :: "FlexyFitProps \<Rightarrow> Viewport option \<Rightarrow> GateState \<Rightarrow> GateState" where
  "checkResponsive p window g =
    (case responsive p of
       None \<Rightarrow> setResponsiveView True g
     | Some rs \<Rightarrow>
        if length rs = 0 then setResponsiveView True g
        else (case window of
           None \<Rightarrow> g
         | Some w \<Rightarrow>
            if Sm \<in> set rs \<and> innerWidth w \<le> 640 then setResponsiveView True g
            else if Md \<in> set rs \<and> innerWidth w \<le> 768 \<and> innerWidth w > 640
              then setResponsiveView True g
            else if Lg \<in> set rs \<and> innerWidth w \<le> 1024 \<and> innerWidth w > 768
              then setResponsiveView True g
            else if Xl \<in> set rs \<and> innerWidth w \<le> 1280 \<and> innerWidth w > 1024
              then setResponsiveView True g
            else if XXl \<in> set rs \<and> innerWidth w \<le> 1536 \<and> innerWidth w > 1280
              then setResponsiveView True g
            else if XXl \<in> set rs \<and> innerWidth w > 1536 then setResponsiveView True g
            else setResponsiveView False g))"

text \<open>
  The local variable \<open>condition\<close> of \<open>checkBreakpoint\<close>, lines 71 to 104: it starts
  \<open>true\<close> and each of the four checks can only assign \<open>false\<close>.
\<close>

definition boundCheck :: "Bound option \<Rightarrow> real \<Rightarrow> bool \<Rightarrow> bool" where
  "boundCheck bo v condition =
    (case bo of
       None \<Rightarrow> condition
     | Some b \<Rightarrow>
        (let c1 = (case bmax b of
                     Some m \<Rightarrow> if v > m then False else condition
                   | None \<Rightarrow> condition)
         in (case bmin b of
               Some m \<Rightarrow> if v < m then False else c1
             | None \<Rightarrow> c1)))"

definition breakpointCondition :: "Breakpoint \<Rightarrow> Viewport \<Rightarrow> bool" where
  "breakpointCondition b w =
     boundCheck (bheight b) (innerHeight w) (boundCheck (bwidth b) (innerWidth w) True)"

text \<open>
  \<open>checkBreakpoint\<close>, lines 64 to 107. Its last statement, line 106, is
  \<open>setResponsiveView(condition)\<close>.
\<close>

definition checkBreakpoint :: "FlexyFitProps \<Rightarrow> Viewport option \<Rightarrow> GateState \<Rightarrow> GateState" where
  "checkBreakpoint p window g =
    (case breakpoint p of
       None \<Rightarrow> setBreakpointView True g
     | Some b \<Rightarrow>
        (case window of
           None \<Rightarrow> g
         | Some w \<Rightarrow> setResponsiveView (breakpointCondition b w) g))"

text \<open>
  The body of the effect, lines 109 to 117, run after mount and after every change of
  \<open>props\<close>; and the listener it registers for the viewport's \<open>resize\<close> event, which is
  \<open>checkResponsive\<close> alone.
\<close>

definition gateEffect :: "FlexyFitProps \<Rightarrow> Viewport option \<Rightarrow> GateState \<Rightarrow> GateState" where
  "gateEffect p window g = checkBreakpoint p window (checkResponsive p window g)"

definition onWindowResize :: "FlexyFitProps \<Rightarrow> Viewport option \<Rightarrow> GateState \<Rightarrow> GateState" where
  "onWindowResize p window g = checkResponsive p window g"

text \<open>
  The value returned by \<open>FlexyFit\<close>, lines 119 to 125: nothing, or the inner component
  with the props \<open>{...rest, fitTo: "width"}\<close>, where \<open>rest\<close> is \<open>props\<close> without
  \<open>responsive\<close>, \<open>breakpoint\<close> and \<open>children\<close>.
\<close>

definition innerProps :: "FlexyFitProps \<Rightarrow> FlexyFitProps" where
  "innerProps p = p\<lparr>responsive := None, breakpoint := None, fitTo := Some FitWidth\<rparr>"

definition FlexyFit :: "FlexyFitProps \<Rightarrow> GateState \<Rightarrow> FlexyFitProps option" where
  "FlexyFit p g =
     (if responsiveView g \<and> breakpointView g then Some (innerProps p) else None)"

definition rendersContent :: "FlexyFitProps \<Rightarrow> GateState \<Rightarrow> bool" where
  "rendersContent p g = (FlexyFit p g \<noteq> None)"

text \<open>A run of the gate: the effect at mount, then one listener call per viewport event.\<close>

fun gateRun :: "FlexyFitProps \<Rightarrow> Viewport option list \<Rightarrow> GateState \<Rightarrow> GateState" where
  "gateRun p [] g = g"
| "gateRun p (w # ws) g = gateRun p ws (onWindowResize p w g)"

text \<open>The width bands of the tiers, as the specification words them.\<close>

fun tierBand :: "ResponsiveType \<Rightarrow> real \<Rightarrow> bool" where
  "tierBand Sm w = (w \<le> 640)"
| "tierBand Md w = (640 < w \<and> w \<le> 768)"
| "tierBand Lg w = (768 < w \<and> w \<le> 1024)"
| "tierBand Xl w = (1024 < w \<and> w \<le> 1280)"
| "tierBand XXl w = (w > 1280)"

text \<open>
  The range check as the specification words it: the conjunction of up to four bound
  checks, each applied only when its bound is set.
\<close>

definition specRange :: "Breakpoint \<Rightarrow> Viewport \<Rightarrow> bool" where
  "specRange b w =
    ((case bwidth b of None \<Rightarrow> True | Some r \<Rightarrow>
        (case bmax r of None \<Rightarrow> True | Some m \<Rightarrow> innerWidth w \<le> m) \<and>
        (case bmin r of None \<Rightarrow> True | Some m \<Rightarrow> m \<le> innerWidth w)) \<and>
     (case bheight b of None \<Rightarrow> True | Some r \<Rightarrow>
        (case bmax r of None \<Rightarrow> True | Some m \<Rightarrow> innerHeight w \<le> m) \<and>
        (case bmin r of None \<Rightarrow> True | Some m \<Rightarrow> m \<le> innerHeight w)))"

text \<open>Concrete props used by the examples below.\<close>

definition noProps :: FlexyFitProps where
  "noProps = \<lparr>width = None, height = None, fitTo = None, overflow = False, px = False,
     flex = False, horizontalOrigin = None, verticalOrigin = None, responsive = None,
     breakpoint = None\<rparr>"

definition onlyWidthMax1024 :: Breakpoint where
  "onlyWidthMax1024 = \<lparr>bwidth = Some \<lparr>bmin = None, bmax = Some 1024\<rparr>, bheight = None\<rparr>"

definition tierProps :: FlexyFitProps where
  "tierProps = noProps\<lparr>responsive := Some [Md, Lg]\<rparr>"

definition rangeProps :: FlexyFitProps where
  "rangeProps = noProps\<lparr>breakpoint := Some onlyWidthMax1024\<rparr>"

section \<open>Fit engine (FlexyFitInternal)\<close>

text \<open>
  An inline style is a map from property names to values. The template strings of the
  source are kept as constructors: \<open>Px v\<close> is \<open>`${v}px`\<close> and \<open>Scale k\<close> is
  \<open>`scale(${k})`\<close>, the CSS scale function with one argument, which scales both axes by
  \<open>k\<close>.
\<close>

datatype CssValue = Str string | Num real | Px real | Scale real

type_synonym Style = "string \<Rightarrow> CssValue option"


text \<open>
  What the layout reports when a callback reads \<open>ref.current\<close>: the element's client
  size, its parent (client size and bounding rectangle) and whether \<open>children[0]\<close>
  exists. A callback that finds \<open>ref.current\<close> unset receives \<open>None\<close>.
\<close>

record ParentElement =
  rectWidth :: real
  rectHeight :: real
  parentClientWidth :: real
  parentClientHeight :: real

record Element =
  clientWidth :: real
  clientHeight :: real
  parentElement :: "ParentElement option"
  firstChild :: bool

text \<open>
  The four \<open>useState\<close> cells, lines 22 to 27. A callback reads them through the closure
  of the render that created it, so within one call of \<open>resize\<close> every read sees the
  values the call started with, also after a setter has been called.
\<close>

record Hooks =
  initialWidth :: "real option"
  initialHeight :: "real option"
  fullParentWidth :: "real option"
  fullParentHeight :: "real option"

text \<open>
  What persists for one mount: the hook cells, the inline style of the container
  (\<open>ref.current.style\<close>), the inline style of its first child, and the style object of
  the last render.
\<close>

record FitState =
  hooks :: Hooks
  style :: Style
  childStyle :: Style
  rendered :: Style

definition setInitialWidth :: "real \<Rightarrow> FitState \<Rightarrow> FitState" where
  "setInitialWidth v t = t\<lparr>hooks := (hooks t)\<lparr>initialWidth := Some v\<rparr>\<rparr>"

definition setInitialHeight :: "real \<Rightarrow> FitState \<Rightarrow> FitState" where
  "setInitialHeight v t = t\<lparr>hooks := (hooks t)\<lparr>initialHeight := Some v\<rparr>\<rparr>"

definition setFullParentWidth :: "real \<Rightarrow> FitState \<Rightarrow> FitState" where
  "setFullParentWidth v t = t\<lparr>hooks := (hooks t)\<lparr>fullParentWidth := Some v\<rparr>\<rparr>"

definition setFullParentHeight :: "real \<Rightarrow> FitState \<Rightarrow> FitState" where
  "setFullParentHeight v t = t\<lparr>hooks := (hooks t)\<lparr>fullParentHeight := Some v\<rparr>\<rparr>"

text \<open>Lines 29 to 31: \<open>_fitTo ?? "width"\<close>, \<open>_width ?? initialWidth\<close>, \<open>_height ?? initialHeight\<close>.\<close>

definition resolvedFitTo :: "FlexyFitProps \<Rightarrow> FitAxis" where
  "resolvedFitTo p = (case fitTo p of None \<Rightarrow> FitWidth | Some a \<Rightarrow> a)"

definition resolvedWidth :: "FlexyFitProps \<Rightarrow> Hooks \<Rightarrow> real option" where
  "resolvedWidth p c = (case width p of None \<Rightarrow> initialWidth c | Some v \<Rightarrow> Some v)"

definition resolvedHeight :: "FlexyFitProps \<Rightarrow> Hooks \<Rightarrow> real option" where
  "resolvedHeight p c = (case height p of None \<Rightarrow> initialHeight c | Some v \<Rightarrow> Some v)"

text \<open>\<open>parentResize\<close>, lines 33 to 42.\<close>

definition parentResize :: "Element option \<Rightarrow> FitState \<Rightarrow> FitState" where
  "parentResize cur t =
    (case cur of
       None \<Rightarrow> t
     | Some el \<Rightarrow>
        (case parentElement el of
           None \<Rightarrow> t
         | Some parent \<Rightarrow>
            setFullParentHeight (rectHeight parent) (setFullParentWidth (rectWidth parent) t)))"

text \<open>
  \<open>keepSyncRatio\<close>, lines 103 to 134. Its arguments are the axis, the closure (props and
  hook values), \<open>ref.current\<close> and the state it writes to.
\<close>

definition keepSyncRatio ::
    "FitAxis \<Rightarrow> FlexyFitProps \<Rightarrow> Hooks \<Rightarrow> Element option \<Rightarrow> FitState \<Rightarrow> FitState" where
  "keepSyncRatio axis p c cur t =
    (case cur of
       None \<Rightarrow> t
     | Some el \<Rightarrow>
        (case parentElement el of
           None \<Rightarrow> t
         | Some parent \<Rightarrow>
            (case resolvedWidth p c of
               None \<Rightarrow> t
             | Some W \<Rightarrow>
                (case resolvedHeight p c of
                   None \<Rightarrow> t
                 | Some H \<Rightarrow>
                    (let originRatio = W / H;
                         resizedParentHeight = parentClientHeight parent;
                         resizedParentWidth = parentClientWidth parent;
                         resizedParentRatio = resizedParentWidth / resizedParentHeight
                     in (case axis of
                           FitWidth \<Rightarrow>
                             if originRatio \<noteq> resizedParentRatio then
                               (let changedRatio = originRatio / resizedParentRatio
                                in if firstChild el then
                                     t\<lparr>childStyle := (childStyle t)
                                        (''width'' \<mapsto> Px W, ''height'' \<mapsto> Px (H * changedRatio))\<rparr>
                                   else t)
                             else t
                         | FitHeight \<Rightarrow>
                             if originRatio \<noteq> resizedParentRatio then
                               (let changedRatio = resizedParentRatio / originRatio
                                in if firstChild el then
                                     t\<lparr>childStyle := (childStyle t)
                                        (''height'' \<mapsto> Px H, ''width'' \<mapsto> Px (W * changedRatio))\<rparr>
                                   else t)
                             else t))))))"

text \<open>
  The two branches of \<open>resize\<close> that write the transform: lines 74 to 83 (fit to width)
  and lines 85 to 94 (fit to height). \<open>W\<close> and \<open>H\<close> are the closure's \<open>width\<close> and
  \<open>height\<close>, known to be set at this point.
\<close>

definition fitToWidth ::
    "FlexyFitProps \<Rightarrow> Hooks \<Rightarrow> Element \<Rightarrow> ParentElement \<Rightarrow> real \<Rightarrow> real \<Rightarrow> FitState \<Rightarrow> FitState" where
  "fitToWidth p c el parent W H t =
    (let resizedParentHeight = parentClientHeight parent;
         resizedChildHeight = H * (clientWidth el / W)
     in if \<not> overflow p \<and> resizedChildHeight > resizedParentHeight then
          (let t' = t\<lparr>style := (style t)(''transform'' \<mapsto> Scale (clientHeight el / H))\<rparr>
           in if flex p then keepSyncRatio FitHeight p c (Some el) t' else t')
        else
          (let t' = t\<lparr>style := (style t)(''transform'' \<mapsto> Scale (clientWidth el / W))\<rparr>
           in if flex p then keepSyncRatio FitWidth p c (Some el) t' else t'))"

definition fitToHeight ::
    "FlexyFitProps \<Rightarrow> Hooks \<Rightarrow> Element \<Rightarrow> ParentElement \<Rightarrow> real \<Rightarrow> real \<Rightarrow> FitState \<Rightarrow> FitState" where
  "fitToHeight p c el parent W H t =
    (let resizedParentWidth = parentClientWidth parent;
         resizedChildWidth = W * (clientHeight el / H)
     in if \<not> overflow p \<and> resizedChildWidth > resizedParentWidth then
          (let t' = t\<lparr>style := (style t)(''transform'' \<mapsto> Scale (clientWidth el / W))\<rparr>
           in if flex p then keepSyncRatio FitWidth p c (Some el) t' else t')
        else
          (let t' = t\<lparr>style := (style t)(''transform'' \<mapsto> Scale (clientHeight el / H))\<rparr>
           in if flex p then keepSyncRatio FitHeight p c (Some el) t' else t'))"

text \<open>Lines 73 to 95: the \<open>if\<close> / \<open>else if\<close> on the fit axis and on the parent.\<close>

definition applyFit ::
    "FlexyFitProps \<Rightarrow> Hooks \<Rightarrow> Element \<Rightarrow> real \<Rightarrow> real \<Rightarrow> FitState \<Rightarrow> FitState" where
  "applyFit p c el W H t =
    (case parentElement el of
       None \<Rightarrow> t
     | Some parent \<Rightarrow>
        if resolvedFitTo p = FitWidth then fitToWidth p c el parent W H t
        else if resolvedFitTo p = FitHeight then fitToHeight p c el parent W H t
        else t)"

text \<open>
  \<open>resize\<close>, lines 44 to 101, in the order of the source. \<open>c\<close> is the closure: every
  test on a hook cell reads it, while the setters and the style writes go to the threaded
  state. \<open>captureSizes\<close> is lines 47 to 62 (the original size, then the parent's bounding
  rectangle), \<open>reveal\<close> is lines 67 to 70, \<open>markChild\<close> is lines 97 to 100.
\<close>

definition captureSizes :: "Hooks \<Rightarrow> Element \<Rightarrow> FitState \<Rightarrow> FitState" where
  "captureSizes c el s =
    (let s1 = (if clientWidth el \<noteq> 0 \<and> clientHeight el \<noteq> 0 then
                 (let a = (if initialWidth c = None
                           then setInitialWidth (clientWidth el) s else s)
                  in if initialHeight c = None
                     then setInitialHeight (clientHeight el) a else a)
               else s)
     in (case parentElement el of
           None \<Rightarrow> s1
         | Some parent \<Rightarrow>
             if fullParentWidth c = None \<and> fullParentHeight c = None then
               setFullParentHeight (rectHeight parent)
                 (setFullParentWidth (rectWidth parent) s1)
             else s1))"

definition reveal :: "FitState \<Rightarrow> FitState" where
  "reveal t =
    (if style t ''visibility'' = Some (Str ''hidden'') then
       t\<lparr>style := (style t)(''visibility'' := None, ''opacity'' := None)\<rparr>
     else t)"

definition markChild :: "Element \<Rightarrow> FitState \<Rightarrow> FitState" where
  "markChild el t =
    (if firstChild el then
       t\<lparr>childStyle := (childStyle t)(''flexShrink'' \<mapsto> Str ''0'')\<rparr>
     else t)"

definition resize :: "FlexyFitProps \<Rightarrow> Element option \<Rightarrow> FitState \<Rightarrow> FitState" where
  "resize p cur s =
    (case cur of
       None \<Rightarrow> s
     | Some el \<Rightarrow>
        (let c = hooks s;
             s2 = captureSizes c el s
         in (case resolvedWidth p c of
               None \<Rightarrow> s2
             | Some W \<Rightarrow>
                (case resolvedHeight p c of
                   None \<Rightarrow> s2
                 | Some H \<Rightarrow>
                    if initialWidth c = None \<or> initialHeight c = None then s2
                    else markChild el (applyFit p c el W H (reveal s2))))))"

text \<open>
  The style object of the returned element, lines 153 to 174. A spread of a falsy value
  adds nothing; \<open>fullParentWidth && ...\<close> is falsy for \<open>null\<close> and for 0.
\<close>

definition orCenter :: "string option \<Rightarrow> string" where
  "orCenter v = (case v of None \<Rightarrow> ''center'' | Some x \<Rightarrow> x)"

definition renderStyle :: "FlexyFitProps \<Rightarrow> Hooks \<Rightarrow> Style" where
  "renderStyle p c =
    (let o1 = (case fullParentWidth c of
                 Some v \<Rightarrow> if initialWidth c \<noteq> None \<and> px p \<and> v \<noteq> 0
                           then Map.empty(''width'' \<mapsto> Num v) else Map.empty
               | None \<Rightarrow> Map.empty);
         o2 = (case fullParentHeight c of
                 Some v \<Rightarrow> if initialHeight c \<noteq> None \<and> px p \<and> v \<noteq> 0
                           then o1(''height'' \<mapsto> Num v) else o1
               | None \<Rightarrow> o1);
         o3 = (if initialHeight c \<noteq> None \<and> \<not> px p
               then o2(''width'' \<mapsto> Str ''100%'', ''height'' \<mapsto> Str ''100%'') else o2);
         o4 = o3(''visibility'' \<mapsto> Str ''hidden'', ''opacity'' \<mapsto> Num 0,
                 ''transformOrigin'' \<mapsto>
                    Str (orCenter (verticalOrigin p) @ '' '' @ orCenter (horizontalOrigin p)));
         o5 = (if orCenter (horizontalOrigin p) = ''center''
               then o4(''display'' \<mapsto> Str ''flex'', ''justifyContent'' \<mapsto> Str ''center'')
               else o4)
     in if orCenter (verticalOrigin p) = ''center''
        then o5(''display'' \<mapsto> Str ''flex'', ''alignItems'' \<mapsto> Str ''center'')
        else o5)"

text \<open>
  The host framework, which is not part of the repository: on a render it compares the
  new style object with the previous one and writes to the element only the properties
  whose value differs (a property that disappeared is removed). At mount the previous
  object is empty, so every property is written.
\<close>

definition commitStyle :: "Style \<Rightarrow> Style \<Rightarrow> Style \<Rightarrow> Style" where
  "commitStyle prev new live = (\<lambda>k. if prev k = new k then live k else new k)"

definition rerender :: "FlexyFitProps \<Rightarrow> FitState \<Rightarrow> FitState" where
  "rerender p s =
    (let new = renderStyle p (hooks s)
     in s\<lparr>style := commitStyle (rendered s) new (style s), rendered := new\<rparr>)"

definition nullHooks :: Hooks where
  "nullHooks = \<lparr>initialWidth = None, initialHeight = None,
                fullParentWidth = None, fullParentHeight = None\<rparr>"

definition mount :: "FlexyFitProps \<Rightarrow> Style \<Rightarrow> FitState" where
  "mount p cs =
     rerender p \<lparr>hooks = nullHooks, style = Map.empty, childStyle = cs, rendered = Map.empty\<rparr>"








section \<open>Auxiliary definitions for the proofs\<close>









definition box800x400 :: Element where
  "box800x400 = \<lparr>clientWidth = 800, clientHeight = 400,
     parentElement = Some \<lparr>rectWidth = 800, rectHeight = 400,
                            parentClientWidth = 800, parentClientHeight = 400\<rparr>,
     firstChild = True\<rparr>"


definition hooks400x200 :: Hooks where
  "hooks400x200 = \<lparr>initialWidth = Some 400, initialHeight = Some 200,
                   fullParentWidth = Some 800, fullParentHeight = Some 100\<rparr>"


definition measured400x200 :: FitState where
  "measured400x200 = \<lparr>hooks = hooks400x200,
     style = Map.empty(''visibility'' \<mapsto> Str ''hidden'', ''opacity'' \<mapsto> Num 0),
     childStyle = Map.empty, rendered = Map.empty\<rparr>"

section \<open>Properties of the visibility gate\<close>

lemma tierBand_member:
  "(\<exists>t\<in>set rs. tierBand t v) =
      (Sm \<in> set rs \<and> tierBand Sm v \<or> Md \<in> set rs \<and> tierBand Md v \<or>
       Lg \<in> set rs \<and> tierBand Lg v \<or> Xl \<in> set rs \<and> tierBand Xl v \<or>
       XXl \<in> set rs \<and> tierBand XXl v)"
proof
  assume "\<exists>t\<in>set rs. tierBand t v"
  then obtain t where t: "t \<in> set rs" "tierBand t v" by blast
  show "Sm \<in> set rs \<and> tierBand Sm v \<or> Md \<in> set rs \<and> tierBand Md v \<or>
       Lg \<in> set rs \<and> tierBand Lg v \<or> Xl \<in> set rs \<and> tierBand Xl v \<or>
       XXl \<in> set rs \<and> tierBand XXl v"
    using t by - (cases t rule: ResponsiveType.exhaust, auto)
next
  assume "Sm \<in> set rs \<and> tierBand Sm v \<or> Md \<in> set rs \<and> tierBand Md v \<or>
       Lg \<in> set rs \<and> tierBand Lg v \<or> Xl \<in> set rs \<and> tierBand Xl v \<or>
       XXl \<in> set rs \<and> tierBand XXl v"
  then show "\<exists>t\<in>set rs. tierBand t v" by blast
qed

lemma checkResponsive_tiers:
  "rs \<noteq> [] \<Longrightarrow> responsive p = Some rs \<Longrightarrow>
   responsiveView (checkResponsive p (Some w) g) = (\<exists>t\<in>set rs. tierBand t (innerWidth w))"
  unfolding tierBand_member
  by (auto simp: checkResponsive_def setResponsiveView_def)

lemma checkResponsive_breakpointView:
  "breakpointView (checkResponsive p window g) = breakpointView g"
  by (simp add: checkResponsive_def setResponsiveView_def split: option.splits)

lemma checkBreakpoint_None:
  "breakpoint p = None \<Longrightarrow> checkBreakpoint p window g = g\<lparr>breakpointView := True\<rparr>"
  by (simp add: checkBreakpoint_def setBreakpointView_def)

lemma tierBand_unique: "\<exists>!t. tierBand t w"
proof -
  consider "w \<le> 640" | "640 < w \<and> w \<le> 768" | "768 < w \<and> w \<le> 1024"
    | "1024 < w \<and> w \<le> 1280" | "1280 < w" by linarith
  then show ?thesis
  proof cases
    case 1
    show ?thesis
    proof (rule ex1I [of _ Sm])
      show "tierBand Sm w" using 1 by simp
      fix t assume "tierBand t w" then show "t = Sm" using 1 by (cases t) simp_all
    qed
  next
    case 2
    show ?thesis
    proof (rule ex1I [of _ Md])
      show "tierBand Md w" using 2 by simp
      fix t assume "tierBand t w" then show "t = Md" using 2 by (cases t) simp_all
    qed
  next
    case 3
    show ?thesis
    proof (rule ex1I [of _ Lg])
      show "tierBand Lg w" using 3 by simp
      fix t assume "tierBand t w" then show "t = Lg" using 3 by (cases t) simp_all
    qed
  next
    case 4
    show ?thesis
    proof (rule ex1I [of _ Xl])
      show "tierBand Xl w" using 4 by simp
      fix t assume "tierBand t w" then show "t = Xl" using 4 by (cases t) simp_all
    qed
  next
    case 5
    show ?thesis
    proof (rule ex1I [of _ XXl])
      show "tierBand XXl w" using 5 by simp
      fix t assume "tierBand t w" then show "t = XXl" using 5 by (cases t) simp_all
    qed
  qed
qed

lemma gateRun_breakpointView: "breakpointView (gateRun p ws g) = breakpointView g"
  by (induction ws arbitrary: g) (simp_all add: onWindowResize_def checkResponsive_breakpointView)

lemma gateRun_snoc: "gateRun p (ws @ [w]) g = onWindowResize p w (gateRun p ws g)"
  by (induction ws arbitrary: g) simp_all

lemma checkBreakpoint_breakpointView:
  "breakpoint p = Some b \<Longrightarrow> breakpointView (checkBreakpoint p window g) = breakpointView g"
  by (simp add: checkBreakpoint_def setResponsiveView_def split: option.splits)

lemma breakpointCondition_spec: "breakpointCondition b w = specRange b w"
  by (auto simp: breakpointCondition_def specRange_def boundCheck_def Let_def split: option.splits)

text \<open>
  Claim C3. With a non-empty tier set and no explicit breakpoint ranges, the component
  renders exactly when the viewport width lies in the band of a requested tier: after the
  effect has run at that viewport, and after any series of viewport resize events that
  ends at that viewport. The bands are sm: w \<le> 640, md: 640 < w \<le> 768, lg: 768 < w \<le> 1024,
  xl: 1024 < w \<le> 1280, 2xl: w > 1280 (the two 2xl tests of the source together), and every
  width, the boundary values 640, 768, 1024 and 1280 included, lies in exactly one band.
\<close>

theorem tier_gate_visibility:
  assumes "responsive p = Some rs" and "rs \<noteq> []" and "breakpoint p = None"
  shows "rendersContent p (gateEffect p (Some w) g) = (\<exists>t\<in>set rs. tierBand t (innerWidth w))
       \<and> rendersContent p (gateRun p (ws @ [Some w]) (gateEffect p w0 g))
           = (\<exists>t\<in>set rs. tierBand t (innerWidth w))
       \<and> (\<exists>!t. tierBand t (innerWidth w))"
proof -
  have bv: "breakpointView (gateEffect p w0 g')" for w0 g'
    using assms(3) by (simp add: gateEffect_def checkBreakpoint_None)
  have rv: "responsiveView (gateEffect p (Some w) g)
        = (\<exists>t\<in>set rs. tierBand t (innerWidth w))"
    using assms by (simp add: gateEffect_def checkBreakpoint_None checkResponsive_tiers)
  have one: "rendersContent p (gateEffect p (Some w) g) = (\<exists>t\<in>set rs. tierBand t (innerWidth w))"
    using bv rv by (simp add: rendersContent_def FlexyFit_def)
  let ?g = "gateRun p (ws @ [Some w]) (gateEffect p w0 g)"
  have "breakpointView ?g" using bv by (simp only: gateRun_breakpointView)
  moreover have "responsiveView ?g = (\<exists>t\<in>set rs. tierBand t (innerWidth w))"
    using assms by (simp add: gateRun_snoc onWindowResize_def checkResponsive_tiers)
  ultimately have two: "rendersContent p ?g = (\<exists>t\<in>set rs. tierBand t (innerWidth w))"
    by (simp add: rendersContent_def FlexyFit_def)
  show ?thesis using one two tierBand_unique by blast
qed

text \<open>
  The tiers md and lg: at width 768 (the upper boundary of md) the component renders
  after the effect; after resize events to 700 and then to 640 (the upper boundary of sm)
  it does not.
\<close>

theorem tier_gate_visibility_witness:
  "rendersContent tierProps
      (gateEffect tierProps (Some \<lparr>innerWidth = 768, innerHeight = 500\<rparr>) gateInit)
   \<and> \<not> rendersContent tierProps
      (gateRun tierProps ([Some \<lparr>innerWidth = 700, innerHeight = 500\<rparr>]
                          @ [Some \<lparr>innerWidth = 640, innerHeight = 500\<rparr>])
         (gateEffect tierProps None gateInit))"
  using tier_gate_visibility [of tierProps "[Md, Lg]" "\<lparr>innerWidth = 768, innerHeight = 500\<rparr>" gateInit
          "[]" None]
        tier_gate_visibility [of tierProps "[Md, Lg]" "\<lparr>innerWidth = 640, innerHeight = 500\<rparr>" gateInit
          "[Some \<lparr>innerWidth = 700, innerHeight = 500\<rparr>]" None]
  by (simp add: tierProps_def noProps_def)

text \<open>
  Claim C2. The range check computes the conjunction of the bound checks that are set,
  but \<open>checkBreakpoint\<close> stores it in \<open>responsiveView\<close> (line 106) and never writes
  \<open>breakpointView\<close> when a breakpoint spec is given. \<open>breakpointView\<close> then keeps its initial
  value \<open>false\<close>, and since the component renders only when both cells are true, a
  component with an explicit breakpoint spec renders at no viewport size.
\<close>

theorem range_gate_never_renders:
  assumes "breakpoint p = Some b"
  shows "responsiveView (checkBreakpoint p (Some w) g) = specRange b w
       \<and> breakpointView (checkBreakpoint p (Some w) g) = breakpointView g
       \<and> \<not> rendersContent p (gateRun p ws (gateEffect p window gateInit))"
proof -
  have "\<not> breakpointView (gateRun p ws (gateEffect p window gateInit))"
    using assms
    by (simp add: gateRun_breakpointView gateEffect_def checkBreakpoint_breakpointView
          checkResponsive_breakpointView gateInit_def)
  then show ?thesis
    using assms
    by (simp add: rendersContent_def FlexyFit_def checkBreakpoint_def setResponsiveView_def
          breakpointCondition_spec)
qed

text \<open>
  With only \<open>width.max = 1024\<close> and a viewport of 800 by 600 the range is satisfied, and
  the component does not render.
\<close>

theorem range_gate_never_renders_witness:
  "specRange onlyWidthMax1024 \<lparr>innerWidth = 800, innerHeight = 600\<rparr>
   \<and> \<not> rendersContent rangeProps
        (gateRun rangeProps [] (gateEffect rangeProps (Some \<lparr>innerWidth = 800, innerHeight = 600\<rparr>) gateInit))"
  using range_gate_never_renders [of rangeProps onlyWidthMax1024
          "\<lparr>innerWidth = 800, innerHeight = 600\<rparr>" gateInit "[]"
          "Some \<lparr>innerWidth = 800, innerHeight = 600\<rparr>"]
  by (simp add: rangeProps_def noProps_def onlyWidthMax1024_def specRange_def)

text \<open>
  Claim C7. The listener registered for the viewport's resize event is \<open>checkResponsive\<close>
  alone: what a resize event does is the same whatever the breakpoint spec is, so the
  range check is not evaluated again. With only \<open>width.max = 1024\<close>, mounted at a viewport
  width of 2000 and then resized to 800, the range holds at the current viewport, yet
  \<open>breakpointView\<close> is false and nothing is rendered.
\<close>

theorem resize_listener_skips_range_check:
  "onWindowResize (p\<lparr>breakpoint := b\<rparr>) window g = onWindowResize p window g
   \<and> (let g0 = gateEffect rangeProps (Some \<lparr>innerWidth = 2000, innerHeight = 600\<rparr>) gateInit;
          g1 = onWindowResize rangeProps (Some \<lparr>innerWidth = 800, innerHeight = 600\<rparr>) g0
      in specRange onlyWidthMax1024 \<lparr>innerWidth = 800, innerHeight = 600\<rparr>
         \<and> \<not> breakpointView g1 \<and> \<not> rendersContent rangeProps g1)"
  by (simp add: onWindowResize_def checkResponsive_def rangeProps_def noProps_def
        onlyWidthMax1024_def specRange_def gateEffect_def checkBreakpoint_def
        setResponsiveView_def setBreakpointView_def gateInit_def rendersContent_def
        FlexyFit_def Let_def breakpointCondition_def boundCheck_def)

section \<open>Properties of the fit engine\<close>

lemma keepSyncRatio_fields [simp]:
  "hooks (keepSyncRatio a p c cur t) = hooks t"
  "style (keepSyncRatio a p c cur t) = style t"
  "rendered (keepSyncRatio a p c cur t) = rendered t"
  by (simp_all add: keepSyncRatio_def Let_def split: option.splits FitAxis.splits)


lemma fitToWidth_fields [simp]:
  "hooks (fitToWidth p c el parent W H t) = hooks t"
  "rendered (fitToWidth p c el parent W H t) = rendered t"
  by (simp_all add: fitToWidth_def Let_def)

lemma fitToHeight_fields [simp]:
  "hooks (fitToHeight p c el parent W H t) = hooks t"
  "rendered (fitToHeight p c el parent W H t) = rendered t"
  by (simp_all add: fitToHeight_def Let_def)





lemma applyFit_fields [simp]:
  "hooks (applyFit p c el W H t) = hooks t"
  "rendered (applyFit p c el W H t) = rendered t"
  by (simp_all add: applyFit_def split: option.splits)

lemma setters_fields [simp]:
  "style (setInitialWidth v t) = style t" "childStyle (setInitialWidth v t) = childStyle t"
  "rendered (setInitialWidth v t) = rendered t"
  "style (setInitialHeight v t) = style t" "childStyle (setInitialHeight v t) = childStyle t"
  "rendered (setInitialHeight v t) = rendered t"
  "style (setFullParentWidth v t) = style t" "childStyle (setFullParentWidth v t) = childStyle t"
  "rendered (setFullParentWidth v t) = rendered t"
  "style (setFullParentHeight v t) = style t" "childStyle (setFullParentHeight v t) = childStyle t"
  "rendered (setFullParentHeight v t) = rendered t"
  by (simp_all add: setInitialWidth_def setInitialHeight_def setFullParentWidth_def
        setFullParentHeight_def)

lemma captureSizes_fields [simp]:
  "style (captureSizes c el s) = style s"
  "childStyle (captureSizes c el s) = childStyle s"
  "rendered (captureSizes c el s) = rendered s"
  by (simp_all add: captureSizes_def Let_def split: option.split)


lemma reveal_fields [simp]:
  "hooks (reveal t) = hooks t" "childStyle (reveal t) = childStyle t"
  "rendered (reveal t) = rendered t"
  by (simp_all add: reveal_def)

lemma markChild_fields [simp]:
  "hooks (markChild el t) = hooks t" "style (markChild el t) = style t"
  "rendered (markChild el t) = rendered t"
  by (simp_all add: markChild_def)













text \<open>
  Claim C10. Whenever the public component renders the inner component, the props it
  passes have \<open>fitTo = "width"\<close>, whatever \<open>fitTo\<close> the caller supplied; and under these
  props the axis selection of \<open>resize\<close> reduces to the fit-to-width branch (or to nothing
  when there is no parent), so the fit-to-height branch is never taken.
\<close>

theorem public_component_fits_width:
  assumes "FlexyFit p g = Some q"
  shows "fitTo q = Some FitWidth \<and> resolvedFitTo q = FitWidth
       \<and> FlexyFit (p\<lparr>fitTo := f\<rparr>) g = Some q
       \<and> applyFit q c el W H t =
           (case parentElement el of
              None \<Rightarrow> t
            | Some parent \<Rightarrow> fitToWidth q c el parent W H t)"
  using assms
  by (auto simp: FlexyFit_def innerProps_def resolvedFitTo_def applyFit_def
        split: if_splits option.splits)

text \<open>A caller asking for \<open>fitTo = "height"\<close> gets the fit-to-width branch.\<close>

theorem public_component_fits_width_witness:
  "FlexyFit (noProps\<lparr>fitTo := Some FitHeight\<rparr>)
       \<lparr>responsiveView = True, breakpointView = True\<rparr> = Some (noProps\<lparr>fitTo := Some FitWidth\<rparr>)
   \<and> resolvedFitTo (noProps\<lparr>fitTo := Some FitWidth\<rparr>) = FitWidth
   \<and> applyFit (noProps\<lparr>fitTo := Some FitWidth\<rparr>) hooks400x200 box800x400 400 200 measured400x200
      = fitToWidth (noProps\<lparr>fitTo := Some FitWidth\<rparr>) hooks400x200 box800x400
          \<lparr>rectWidth = 800, rectHeight = 400, parentClientWidth = 800, parentClientHeight = 400\<rparr>
          400 200 measured400x200"
proof -
  have f: "FlexyFit (noProps\<lparr>fitTo := Some FitHeight\<rparr>)
       \<lparr>responsiveView = True, breakpointView = True\<rparr> = Some (noProps\<lparr>fitTo := Some FitWidth\<rparr>)"
    by (simp add: FlexyFit_def innerProps_def noProps_def)
  show ?thesis
    using f public_component_fits_width [OF f, where c = hooks400x200 and el = box800x400
        and W = 400 and H = 200 and t = measured400x200]
    by (simp add: box800x400_def)
qed








lemma resize_None [simp]: "resize p None s = s"
  by (simp add: resize_def)




lemma rerender_fields [simp]:
  "hooks (rerender p s) = hooks s" "childStyle (rerender p s) = childStyle s"
  by (simp_all add: rerender_def Let_def)

lemma parentResize_fields [simp]:
  "style (parentResize cur s) = style s" "childStyle (parentResize cur s) = childStyle s"
  "rendered (parentResize cur s) = rendered s"
  "initialWidth (hooks (parentResize cur s)) = initialWidth (hooks s)"
  "initialHeight (hooks (parentResize cur s)) = initialHeight (hooks s)"
  by (simp_all add: parentResize_def setFullParentWidth_def setFullParentHeight_def
        split: option.split)







lemma mount_hooks [simp]: "hooks (mount p cs) = nullHooks"
  by (simp add: mount_def)




































lemma reveal_style_again: "style t' = style (reveal t) \<Longrightarrow> style (reveal t') = style t'"
  by (auto simp: reveal_def split: if_splits)







end
